theory Spec2Isabelle
  imports Complex_Main
begin

section \<open>Attention over book ratings: the notebook \<open>TransKQV_todo.ipynb\<close>\<close>

text \<open>
  The notebook computes with numpy arrays of float64. The embedding takes a one-dimensional
  array as a \<open>real list\<close> and a two-dimensional array as the list of its rows; an array
  without rows stands for the shape \<open>(0, d)\<close> with \<open>d\<close> the length of the query.
  Arithmetic is that of the real numbers: rounding and the overflow of \<open>np.exp\<close> (it
  returns \<open>inf\<close> above about \<open>709.78\<close>, and the weights are then \<open>nan\<close>) are outside the
  model, which speaks for the code where the scores divided by the temperature stay well
  inside that range, and up to rounding. The one place where numpy leaves the finite
  numbers on exact arithmetic too, a division by a zero temperature or a mean over no
  rows, is the outcome \<open>NonFinite\<close>: numpy prints a RuntimeWarning there and returns
  \<open>inf\<close> or \<open>nan\<close>; it does not raise.
\<close>

datatype error = ValueError | NameError | IndexError | KeyError

datatype 'a outcome = Raises error | NonFinite | Returns 'a

subsection \<open>The numpy operations the notebook calls\<close>

definition dot :: "real list \<Rightarrow> real list \<Rightarrow> real" where
  "dot k q = sum_list (map2 (*) k q)"

text \<open>\<open>np.dot(keys, query)\<close> of a matrix and a vector: the last axis of the matrix must
  have the length of the vector, else numpy raises ValueError (shapes not aligned). The
  list of no rows is the array of shape \<open>(0, len(query))\<close> only. An empty array of any
  other shape, which \<open>np.dot\<close> rejects unless the query is empty too, has no counterpart
  among the lists, so the statement of exactly when the call raises is made for at least
  one key.\<close>

definition np_dot :: "real list list \<Rightarrow> real list \<Rightarrow> error + real list" where
  "np_dot keys query =
     (if list_all (\<lambda>k. length k = length query) keys
      then Inr (map (\<lambda>k. dot k query) keys)
      else Inl ValueError)"

text \<open>\<open>values * attention_weights\<close> of two vectors: numpy broadcasts an operand of
  length one and raises ValueError for any other two different lengths.\<close>

definition np_multiply :: "real list \<Rightarrow> real list \<Rightarrow> error + real list" where
  "np_multiply xs ys =
     (if length xs = length ys then Inr (map2 (*) xs ys)
      else if length xs = 1 then Inr (map (\<lambda>y. hd xs * y) ys)
      else if length ys = 1 then Inr (map (\<lambda>x. x * hd ys) xs)
      else Inl ValueError)"

text \<open>\<open>np.mean(rows, axis=0)\<close> of a list of equally long rows; of no rows it is \<open>nan\<close>.\<close>

definition np_mean_axis0 :: "real list list \<Rightarrow> real list option" where
  "np_mean_axis0 rows =
     (case rows of
        [] \<Rightarrow> None
      | r # _ \<Rightarrow> Some (map (\<lambda>i. (\<Sum>row\<leftarrow>rows. row ! i) / real (length rows)) [0..<length r]))"

subsection \<open>Single-head attention\<close>

definition compute_attention ::
  "real list list \<Rightarrow> real list \<Rightarrow> real list \<Rightarrow> real \<Rightarrow> (real list \<times> real) outcome" where
  "compute_attention keys query values temperature =
     (case np_dot keys query of
        Inl e \<Rightarrow> Raises e
      | Inr dots \<Rightarrow>
          (let attention_scores = map (\<lambda>s. s / temperature) dots;
               exps = map exp attention_scores;
               attention_weights = map (\<lambda>x. x / sum_list exps) exps
           in case np_multiply values attention_weights of
                Inl e \<Rightarrow> Raises e
              | Inr weighted \<Rightarrow>
                  if temperature = 0 \<and> keys \<noteq> [] then NonFinite
                  else Returns (attention_weights, sum_list weighted)))"

subsection \<open>The module-level names and multi-head attention\<close>

record book =
  embedding :: "real list"
  rating :: real

text \<open>The names a function body reads without binding them are looked up in the module
  when the call runs. \<open>multi_head_attention\<close> reads two: \<open>books\<close>, the dictionary of the
  third cell (kept in insertion order), and \<open>attention_per_head\<close>, which no cell of the
  notebook assigns.\<close>

record globals =
  books :: "(string \<times> book) list"
  attention_per_head :: "real list list option"

definition notebook_books :: "(string \<times> book) list" where
  "notebook_books =
     [(''Harry Potter'', \<lparr>embedding = [9/10, 8/10, 3/10], rating = 48/10\<rparr>),
      (''Lord of the Rings'', \<lparr>embedding = [8/10, 9/10, 2/10], rating = 49/10\<rparr>),
      (''Romeo and Juliet'', \<lparr>embedding = [1/10, 2/10, 9/10], rating = 45/10\<rparr>),
      (''Sherlock Holmes'', \<lparr>embedding = [2/10, 9/10, 3/10], rating = 46/10\<rparr>),
      (''Twilight'', \<lparr>embedding = [4/10, 3/10, 9/10], rating = 4\<rparr>)]"

definition notebook_globals :: globals where
  "notebook_globals = \<lparr>books = notebook_books, attention_per_head = None\<rparr>"

definition create_KQV :: "'a globals_scheme \<Rightarrow> real list list \<times> real list \<times> real list" where
  "create_KQV g =
     (map (\<lambda>(name, b). embedding b) (books g),
      [8/10, 7/10, 2/10],
      map (\<lambda>(name, b). rating b) (books g))"

definition projection_matrices :: "(nat \<times> real list list) list" where
  "projection_matrices =
     [(0, [[8/10, 2/10, 0], [2/10, 7/10, 1/10], [0, 1/10, 9/10]]),
      (1, [[1/10, 8/10, 1/10], [1/10, 1/10, 8/10], [8/10, 1/10, 1/10]])]"

text \<open>The elements of a list display are evaluated from left to right; the first one
  that raises ends the evaluation.\<close>

fun collect :: "(error + 'a) list \<Rightarrow> error + 'a list" where
  "collect [] = Inr []"
| "collect (x # xs) =
     (case x of
        Inl e \<Rightarrow> Inl e
      | Inr v \<Rightarrow> (case collect xs of Inl e \<Rightarrow> Inl e | Inr vs \<Rightarrow> Inr (v # vs)))"

text \<open>\<open>books[book]["rating"] * attention_per_head[head_idx][i]\<close>\<close>

definition head_rating :: "'a globals_scheme \<Rightarrow> nat \<Rightarrow> nat \<Rightarrow> string \<Rightarrow> error + real" where
  "head_rating g head_idx i name =
     (case map_of (books g) name of
        None \<Rightarrow> Inl KeyError
      | Some b \<Rightarrow>
          (case attention_per_head g of
             None \<Rightarrow> Inl NameError
           | Some per_head \<Rightarrow>
               if head_idx < length per_head
               then (if i < length (per_head ! head_idx)
                     then Inr (rating b * per_head ! head_idx ! i)
                     else Inl IndexError)
               else Inl IndexError))"

definition head_ratings :: "'a globals_scheme \<Rightarrow> nat \<Rightarrow> error + real list" where
  "head_ratings g head_idx =
     collect (map (\<lambda>(i, name). head_rating g head_idx i name)
                  (enumerate 0 (map fst (books g))))"

definition book_ratings_per_head :: "'a globals_scheme \<Rightarrow> int \<Rightarrow> error + real list list" where
  "book_ratings_per_head g n_heads = collect (map (head_ratings g) [0..<nat n_heads])"

text \<open>The body as the notebook has it: the steps marked TODO (the projection of query and
  keys and the call of \<open>compute_attention\<close> for each head) are comments only, so \<open>keys\<close>,
  \<open>values\<close> and \<open>temperature\<close> are not used, and \<open>query\<close> only for its shape.\<close>

definition multi_head_attention ::
  "'a globals_scheme \<Rightarrow> real list list \<Rightarrow> real list \<Rightarrow> real list \<Rightarrow> int \<Rightarrow> real \<Rightarrow>
     (real list list \<times> real list \<times> (nat \<times> real list list) list) outcome" where
  "multi_head_attention g keys query values n_heads temperature =
     (let d_model = length query in
      case book_ratings_per_head g n_heads of
        Inl e \<Rightarrow> Raises e
      | Inr rated \<Rightarrow>
          (case attention_per_head g of
             None \<Rightarrow> Raises NameError
           | Some per_head \<Rightarrow>
               (case np_mean_axis0 rated of
                  None \<Rightarrow> NonFinite
                | Some final_ratings \<Rightarrow> Returns (per_head, final_ratings, projection_matrices))))"

subsection \<open>The scorer as the specification words it\<close>

text \<open>The three formulas of the specification, by index: the score of item \<open>i\<close>, its
  weight, and the aggregate. They are compared with \<open>compute_attention\<close> below.\<close>

definition spec_score :: "real list list \<Rightarrow> real list \<Rightarrow> real \<Rightarrow> nat \<Rightarrow> real" where
  "spec_score keys query temperature i =
     (\<Sum>j<length query. keys ! i ! j * query ! j) / temperature"

definition spec_weight :: "real list list \<Rightarrow> real list \<Rightarrow> real \<Rightarrow> nat \<Rightarrow> real" where
  "spec_weight keys query temperature i =
     exp (spec_score keys query temperature i) /
       (\<Sum>j<length keys. exp (spec_score keys query temperature j))"

definition spec_aggregate :: "real list list \<Rightarrow> real list \<Rightarrow> real list \<Rightarrow> real \<Rightarrow> real" where
  "spec_aggregate keys query values temperature =
     (\<Sum>i<length keys. values ! i * spec_weight keys query temperature i)"

text \<open>The two lists the body of \<open>compute_attention\<close> builds, named for the proofs.\<close>

definition scores :: "real list list \<Rightarrow> real list \<Rightarrow> real \<Rightarrow> real list" where
  "scores keys query temperature = map (\<lambda>k. dot k query / temperature) keys"

definition weights :: "real list list \<Rightarrow> real list \<Rightarrow> real \<Rightarrow> real list" where
  "weights keys query temperature =
     map (\<lambda>s. exp s / (\<Sum>t\<leftarrow>scores keys query temperature. exp t))
         (scores keys query temperature)"

subsection \<open>Calls in a module state\<close>





section \<open>Properties of the single-head scorer\<close>

lemma np_dot_ok:
  "list_all (\<lambda>k. length k = length query) keys \<Longrightarrow>
   np_dot keys query = Inr (map (\<lambda>k. dot k query) keys)"
  by (simp add: np_dot_def)

lemma dot_nth:
  "length k = length q \<Longrightarrow> dot k q = (\<Sum>j<length q. k ! j * q ! j)"
proof -
  assume len: "length k = length q"
  have "dot k q = (\<Sum>j<length (map2 (*) k q). map2 (*) k q ! j)"
    unfolding dot_def by (simp only: sum_list_sum_nth atLeast0LessThan)
  also have "\<dots> = (\<Sum>j<length q. k ! j * q ! j)"
    using len by simp
  finally show ?thesis .
qed

lemma sum_list_nth_lessThan: "sum_list xs = (\<Sum>i<length xs. xs ! i)"
  for xs :: "real list"
  by (simp only: sum_list_sum_nth atLeast0LessThan)

lemma compute_attention_returns:
  assumes "list_all (\<lambda>k. length k = length query) keys"
    and "length values = length keys"
    and "temperature \<noteq> 0 \<or> keys = []"
  shows "compute_attention keys query values temperature =
           Returns (weights keys query temperature,
                    sum_list (map2 (*) values (weights keys query temperature)))"
  using assms
  by (auto simp add: compute_attention_def np_dot_ok np_multiply_def Let_def
      weights_def scores_def comp_def)

lemma length_weights: "length (weights keys query temperature) = length keys"
  by (simp add: weights_def scores_def)

lemma scores_nth:
  assumes "list_all (\<lambda>k. length k = length query) keys" and "i < length keys"
  shows "scores keys query temperature ! i = spec_score keys query temperature i"
proof -
  have "length (keys ! i) = length query"
    using assms by (simp add: list_all_length)
  then show ?thesis
    using assms(2) by (simp add: scores_def spec_score_def dot_nth)
qed

lemma sum_exp_scores:
  assumes "list_all (\<lambda>k. length k = length query) keys"
  shows "(\<Sum>t\<leftarrow>scores keys query temperature. exp t) =
         (\<Sum>j<length keys. exp (spec_score keys query temperature j))"
proof -
  have "(\<Sum>t\<leftarrow>scores keys query temperature. exp t) =
        (\<Sum>j<length keys. exp (scores keys query temperature ! j))"
    by (simp add: sum_list_nth_lessThan scores_def)
  also have "\<dots> = (\<Sum>j<length keys. exp (spec_score keys query temperature j))"
    by (rule sum.cong) (simp_all add: scores_nth [OF assms])
  finally show ?thesis .
qed

lemma weights_nth:
  assumes "list_all (\<lambda>k. length k = length query) keys" and "i < length keys"
  shows "weights keys query temperature ! i = spec_weight keys query temperature i"
proof -
  have "weights keys query temperature ! i =
        exp (scores keys query temperature ! i) / (\<Sum>t\<leftarrow>scores keys query temperature. exp t)"
    using assms(2) by (simp add: weights_def scores_def)
  then show ?thesis
    by (simp add: spec_weight_def scores_nth [OF assms] sum_exp_scores [OF assms(1)])
qed

lemma aggregate_nth:
  assumes "list_all (\<lambda>k. length k = length query) keys" and "length values = length keys"
  shows "sum_list (map2 (*) values (weights keys query temperature)) =
         spec_aggregate keys query values temperature"
proof -
  have "sum_list (map2 (*) values (weights keys query temperature)) =
        (\<Sum>i<length keys. values ! i * weights keys query temperature ! i)"
    using assms(2) by (simp add: sum_list_nth_lessThan length_weights)
  also have "\<dots> = (\<Sum>i<length keys. values ! i * spec_weight keys query temperature i)"
    by (rule sum.cong) (simp_all add: weights_nth [OF assms(1)])
  finally show ?thesis by (simp add: spec_aggregate_def)
qed

text \<open>
  Claim C1. Where every key has the length of the query, there are as many values as keys
  and the temperature is positive, \<open>compute_attention\<close> returns a pair of weights and
  aggregate: there is one weight for each key, the weight of item \<open>i\<close> is
  \<open>exp (score i) / (\<Sum>j. exp (score j))\<close> with \<open>score i = dot (keys ! i) query / temperature\<close>
  (no maximum is subtracted), and the aggregate is \<open>\<Sum>i. values ! i * weight i\<close>.
\<close>

theorem compute_attention_formula:
  assumes "list_all (\<lambda>k. length k = length query) keys"
    and "length keys = length values"
    and "0 < temperature"
  shows "\<exists>w a. compute_attention keys query values temperature = Returns (w, a)
           \<and> length w = length keys
           \<and> (\<forall>i<length keys. w ! i = spec_weight keys query temperature i)
           \<and> a = spec_aggregate keys query values temperature"
proof -
  have "compute_attention keys query values temperature =
          Returns (weights keys query temperature,
                   sum_list (map2 (*) values (weights keys query temperature)))"
    using assms by (intro compute_attention_returns) simp_all
  then show ?thesis
    using assms by (simp add: length_weights weights_nth aggregate_nth)
qed

theorem compute_attention_formula_witness:
  "list_all (\<lambda>k. length k = length [1, 0 :: real]) [[1, 0], [0, 1 :: real]]
   \<and> length [[1, 0], [0, 1 :: real]] = length [10, 20 :: real]
   \<and> (0::real) < 1
   \<and> (\<exists>w a. compute_attention [[1, 0], [0, 1]] [1, 0] [10, 20] 1 = Returns (w, a)
         \<and> length w = 2
         \<and> w ! 0 = spec_weight [[1, 0], [0, 1]] [1, 0] 1 0
         \<and> w ! 1 = spec_weight [[1, 0], [0, 1]] [1, 0] 1 1
         \<and> a = spec_aggregate [[1, 0], [0, 1]] [1, 0] [10, 20] 1)"
  using compute_attention_formula [of "[1, 0]" "[[1, 0], [0, 1]]" "[10, 20]" 1]
  by (simp add: numeral_2_eq_2 less_Suc_eq all_conj_distrib)

subsection \<open>The weights are a distribution\<close>

lemma sum_list_exp_pos:
  fixes xs :: "real list"
  assumes "xs \<noteq> []"
  shows "0 < (\<Sum>t\<leftarrow>xs. exp t)"
  using assms
proof (induction xs)
  case Nil
  then show ?case by simp
next
  case (Cons x xs)
  have "0 \<le> (\<Sum>t\<leftarrow>xs. exp t)"
    by (rule sum_list_nonneg) auto
  moreover have "0 < exp x"
    by simp
  ultimately show ?case
    by (simp add: add_pos_nonneg)
qed

lemma weights_nonneg: "x \<in> set (weights keys query temperature) \<Longrightarrow> 0 \<le> x"
proof -
  assume "x \<in> set (weights keys query temperature)"
  then obtain s where "x = exp s / (\<Sum>t\<leftarrow>scores keys query temperature. exp t)"
    by (auto simp add: weights_def)
  moreover have "0 \<le> (\<Sum>t\<leftarrow>scores keys query temperature. exp t)"
    by (rule sum_list_nonneg) auto
  ultimately show ?thesis by simp
qed

lemma sum_list_weights:
  assumes "keys \<noteq> []"
  shows "sum_list (weights keys query temperature) = 1"
proof -
  let ?Z = "\<Sum>t\<leftarrow>scores keys query temperature. exp t"
  have pos: "0 < ?Z"
    using assms by (intro sum_list_exp_pos) (simp add: scores_def)
  have "sum_list (weights keys query temperature) =
        (\<Sum>s\<leftarrow>scores keys query temperature. exp s * inverse ?Z)"
    by (simp add: weights_def comp_def divide_inverse)
  also have "\<dots> = ?Z * inverse ?Z"
    by (simp only: sum_list_mult_const)
  also have "\<dots> = 1"
    using pos by simp
  finally show ?thesis .
qed

text \<open>
  Claim C2. On a valid input with at least one item (the scores are then finite and their
  exponentials have a positive sum) the returned weights are a probability distribution
  over the items: one weight for each key and each value, no weight negative, and the
  weights sum to one, so also within \<open>10\<^sup>-\<^sup>9\<close> of one.
\<close>

theorem weights_distribution:
  assumes "list_all (\<lambda>k. length k = length query) keys"
    and "length keys = length values"
    and "0 < temperature"
    and "keys \<noteq> []"
  shows "\<exists>w a. compute_attention keys query values temperature = Returns (w, a)
           \<and> length w = length keys \<and> length w = length values
           \<and> (\<forall>x\<in>set w. 0 \<le> x)
           \<and> sum_list w = 1
           \<and> \<bar>sum_list w - 1\<bar> \<le> 1 / 10 ^ 9"
proof -
  have "compute_attention keys query values temperature =
          Returns (weights keys query temperature,
                   sum_list (map2 (*) values (weights keys query temperature)))"
    using assms by (intro compute_attention_returns) simp_all
  then show ?thesis
    using assms by (simp add: length_weights weights_nonneg sum_list_weights)
qed

theorem weights_distribution_witness:
  "list_all (\<lambda>k. length k = length [1, 0 :: real]) [[1, 0], [0, 1 :: real]]
   \<and> length [[1, 0], [0, 1 :: real]] = length [10, 20 :: real]
   \<and> (0::real) < 1
   \<and> [[1, 0], [0, 1 :: real]] \<noteq> []
   \<and> (\<exists>w a. compute_attention [[1, 0], [0, 1]] [1, 0] [10, 20] 1 = Returns (w, a)
         \<and> length w = 2 \<and> sum_list w = 1)"
  using weights_distribution [of "[1, 0]" "[[1, 0], [0, 1]]" "[10, 20]" 1]
  by auto

subsection \<open>When the scorer raises\<close>

lemma compute_attention_raises_iff:
  "compute_attention keys query values temperature = Raises e \<longleftrightarrow>
     e = ValueError \<and>
     ((\<exists>k\<in>set keys. length k \<noteq> length query)
      \<or> (length values \<noteq> length keys \<and> length values \<noteq> 1 \<and> length keys \<noteq> 1))"
  by (auto simp add: compute_attention_def np_dot_def np_multiply_def Let_def list_all_iff
      split: sum.splits if_splits)

text \<open>
  Claim C5, as the code has it. With at least one key, \<open>compute_attention\<close> raises exactly
  when a key has not the length of the query, or when keys and values differ in number and
  neither number is one (numpy broadcasts the operand of length one); the error is then
  numpy's shape error, a ValueError. The keys \<open>[[1,0,0]]\<close> with the query \<open>[1,0]\<close> raise it.
\<close>

theorem shape_error_iff:
  assumes "keys \<noteq> []"
  shows "(compute_attention keys query values temperature = Raises e \<longleftrightarrow>
      e = ValueError \<and>
      ((\<exists>k\<in>set keys. length k \<noteq> length query)
       \<or> (length values \<noteq> length keys \<and> length values \<noteq> 1 \<and> length keys \<noteq> 1)))
   \<and> compute_attention [[1, 0, 0]] [1, 0] values temperature = Raises ValueError"
  by (simp add: compute_attention_raises_iff)

theorem shape_error_iff_witness:
  "[[1, 0, 0 :: real]] \<noteq> [] \<and> [[1, 0], [0, 1], [1, 1 :: real]] \<noteq> []
   \<and> compute_attention [[1, 0, 0]] [1, 0] [10] 1 = Raises ValueError
   \<and> compute_attention [[1, 0], [0, 1], [1, 1]] [1, 0] [10, 20] 1 = Raises ValueError
   \<and> compute_attention [[1, 0], [0, 1], [1, 1]] [1, 0] [10] 1 \<noteq> Raises ValueError"
  using shape_error_iff [of "[[1, 0, 0]]" "[1, 0]" "[10]" 1 ValueError]
    shape_error_iff [of "[[1, 0], [0, 1], [1, 1]]" "[1, 0]" "[10, 20]" 1 ValueError]
    shape_error_iff [of "[[1, 0], [0, 1], [1, 1]]" "[1, 0]" "[10]" 1 ValueError]
  by simp

text \<open>One key and two values: the lengths differ and the call returns, the single weight
  broadcast over both values.\<close>

theorem length_mismatch_broadcast:
  "length [[1, 0 :: real]] \<noteq> length [10, 20 :: real]
   \<and> list_all (\<lambda>k. length k = length [1, 0 :: real]) [[1, 0 :: real]]
   \<and> compute_attention [[1, 0]] [1, 0] [10, 20] 1 = Returns ([1], 30)"
  by (simp add: compute_attention_def np_dot_def np_multiply_def dot_def)

text \<open>
  Claim C6, as the code has it. The body never tests the temperature. With keys of the
  length of the query and as many values as keys, a temperature \<open>\<le> 0\<close> raises nothing: a
  negative one divides the scores as any other, and the weights and the aggregate are the
  formulas of the specification at that temperature; a zero one, with at least one key,
  gives the non-finite values numpy returns for a division by zero.
\<close>

theorem nonpositive_temperature_no_error:
  assumes "temperature \<le> 0"
    and "list_all (\<lambda>k. length k = length query) keys"
    and "length keys = length values"
  shows "(\<forall>e. compute_attention keys query values temperature \<noteq> Raises e)
    \<and> (temperature < 0 \<longrightarrow>
         (\<exists>w a. compute_attention keys query values temperature = Returns (w, a)
            \<and> length w = length keys
            \<and> (\<forall>i<length keys. w ! i = spec_weight keys query temperature i)
            \<and> a = spec_aggregate keys query values temperature))
    \<and> (temperature = 0 \<and> keys \<noteq> [] \<longrightarrow>
         compute_attention keys query values temperature = NonFinite)"
proof (intro conjI impI)
  show "\<forall>e. compute_attention keys query values temperature \<noteq> Raises e"
    using assms(2,3) by (simp add: compute_attention_raises_iff list_all_iff)
next
  assume neg: "temperature < 0"
  have "compute_attention keys query values temperature =
          Returns (weights keys query temperature,
                   sum_list (map2 (*) values (weights keys query temperature)))"
    using assms neg by (intro compute_attention_returns) simp_all
  then show "\<exists>w a. compute_attention keys query values temperature = Returns (w, a)
            \<and> length w = length keys
            \<and> (\<forall>i<length keys. w ! i = spec_weight keys query temperature i)
            \<and> a = spec_aggregate keys query values temperature"
    using assms by (simp add: length_weights weights_nth aggregate_nth)
next
  assume "temperature = 0 \<and> keys \<noteq> []"
  then show "compute_attention keys query values temperature = NonFinite"
    using assms(2,3)
    by (simp add: compute_attention_def np_dot_ok np_multiply_def Let_def)
qed

theorem nonpositive_temperature_no_error_witness:
  "(-1 :: real) \<le> 0
   \<and> list_all (\<lambda>k. length k = length [1, 0 :: real]) [[1, 0], [0, 1 :: real]]
   \<and> length [[1, 0], [0, 1 :: real]] = length [10, 20 :: real]
   \<and> compute_attention [[1, 0], [0, 1]] [1, 0] [10, 20] (-1) \<noteq> Raises ValueError
   \<and> (\<exists>w a. compute_attention [[1, 0], [0, 1]] [1, 0] [10, 20] (-1) = Returns (w, a)
         \<and> length w = 2)"
  using nonpositive_temperature_no_error [of "-1" "[1, 0]" "[[1, 0], [0, 1]]" "[10, 20]"]
  by auto

text \<open>Temperature \<open>-1\<close> and temperature \<open>0\<close> on the two-item scenario: both calls return.\<close>

theorem nonpositive_temperature_accepted:
  "(-1 :: real) \<le> 0
   \<and> compute_attention [[1, 0], [0, 1]] [1, 0] [10, 20] (-1) =
       Returns ([exp (-1) / (exp (-1) + 1), 1 / (exp (-1) + 1)],
                10 * (exp (-1) / (exp (-1) + 1)) + 20 * (1 / (exp (-1) + 1)))
   \<and> compute_attention [[1, 0], [0, 1]] [1, 0] [10, 20] 0 = NonFinite"
  by (simp add: compute_attention_def np_dot_def np_multiply_def dot_def)

subsection \<open>The two-item scenario\<close>

text \<open>Bounds for \<open>exp 1\<close>, from \<open>exp (1/1024)\<close> squared ten times.\<close>

lemma exp_double_lower:
  fixes a b x y :: real
  assumes "a \<le> exp x" and "0 \<le> a" and "b \<le> a * a" and "y = 2 * x"
  shows "b \<le> exp y"
proof -
  have "a * a \<le> exp x * exp x"
    using assms(1,2) by (intro mult_mono) simp_all
  also have "\<dots> = exp y"
    by (simp add: assms(4) exp_add [symmetric])
  finally show ?thesis using assms(3) by linarith
qed

lemma exp_double_upper:
  fixes a b x y :: real
  assumes "exp x \<le> a" and "a * a \<le> b" and "y = 2 * x"
  shows "exp y \<le> b"
proof -
  have "0 \<le> a"
    using assms(1) exp_ge_zero [of x] by linarith
  have "exp y = exp x * exp x"
    by (simp add: assms(3) exp_add [symmetric])
  also have "\<dots> \<le> a * a"
    using assms(1) \<open>0 \<le> a\<close> by (intro mult_mono) simp_all
  finally show ?thesis using assms(2) by linarith
qed

lemma exp_1_lower: "2.7169 < exp (1::real)"
proof -
  have l0: "1.000976562 \<le> exp (1/1024 :: real)"
    using exp_ge_add_one_self [of "1/1024 :: real"] by simp
  have l1: "1.001954077 \<le> exp (1/512 :: real)"
    by (rule exp_double_lower [OF l0]) simp_all
  have l2: "1.003911972 \<le> exp (1/256 :: real)"
    by (rule exp_double_lower [OF l1]) simp_all
  have l3: "1.007839247 \<le> exp (1/128 :: real)"
    by (rule exp_double_lower [OF l2]) simp_all
  have l4: "1.015739947 \<le> exp (1/64 :: real)"
    by (rule exp_double_lower [OF l3]) simp_all
  have l5: "1.031727639 \<le> exp (1/32 :: real)"
    by (rule exp_double_lower [OF l4]) simp_all
  have l6: "1.064461921 \<le> exp (1/16 :: real)"
    by (rule exp_double_lower [OF l5]) simp_all
  have l7: "1.133079181 \<le> exp (1/8 :: real)"
    by (rule exp_double_lower [OF l6]) simp_all
  have l8: "1.283868430 \<le> exp (1/4 :: real)"
    by (rule exp_double_lower [OF l7]) simp_all
  have l9: "1.648318145 \<le> exp (1/2 :: real)"
    by (rule exp_double_lower [OF l8]) simp_all
  have l10: "2.716952707 \<le> exp (1::real)"
    by (rule exp_double_lower [OF l9]) simp_all
  show ?thesis using l10 by simp
qed

lemma exp_1_upper: "exp (1::real) < 2.7197"
proof -
  have u0: "exp (1/1024 :: real) \<le> 1.000977517"
    using exp_bound [of "1/1024 :: real"] by (simp add: power2_eq_square)
  have u1: "exp (1/512 :: real) \<le> 1.001955990"
    by (rule exp_double_upper [OF u0]) simp_all
  have u2: "exp (1/256 :: real) \<le> 1.003915806"
    by (rule exp_double_upper [OF u1]) simp_all
  have u3: "exp (1/128 :: real) \<le> 1.007846946"
    by (rule exp_double_upper [OF u2]) simp_all
  have u4: "exp (1/64 :: real) \<le> 1.015755467"
    by (rule exp_double_upper [OF u3]) simp_all
  have u5: "exp (1/32 :: real) \<le> 1.031759169"
    by (rule exp_double_upper [OF u4]) simp_all
  have u6: "exp (1/16 :: real) \<le> 1.064526983"
    by (rule exp_double_upper [OF u5]) simp_all
  have u7: "exp (1/8 :: real) \<le> 1.133217698"
    by (rule exp_double_upper [OF u6]) simp_all
  have u8: "exp (1/4 :: real) \<le> 1.284182352"
    by (rule exp_double_upper [OF u7]) simp_all
  have u9: "exp (1/2 :: real) \<le> 1.649124314"
    by (rule exp_double_upper [OF u8]) simp_all
  have u10: "exp (1::real) \<le> 2.719611004"
    by (rule exp_double_upper [OF u9]) simp_all
  show ?thesis using u10 by simp
qed

lemma scenario_outcome:
  "compute_attention [[1, 0], [0, 1]] [1, 0] [10, 20] 1 =
     Returns ([exp 1 / (exp 1 + 1), 1 / (exp 1 + 1)],
              10 * (exp 1 / (exp 1 + 1)) + 20 * (1 / (exp 1 + 1)))"
  by (simp add: compute_attention_def np_dot_def np_multiply_def dot_def)

lemma scenario_bounds:
  fixes e :: real
  assumes "27169 / 10000 < e" and "e < 27197 / 10000"
  shows "\<bar>e / (e + 1) - 731 / 1000\<bar> < 5 / 10000"
    and "\<bar>1 / (e + 1) - 269 / 1000\<bar> < 5 / 10000"
    and "\<bar>10 * (e / (e + 1)) + 20 * (1 / (e + 1)) - 1269 / 100\<bar> < 5 / 1000"
    and "1268 / 100 < 10 * (e / (e + 1)) + 20 * (1 / (e + 1))"
proof -
  define x where "x = 1 / (e + 1)"
  have pos: "0 < e + 1"
    using assms(1) by simp
  have lo: "2688 / 10000 < x"
    unfolding x_def using assms(2) pos by (simp add: pos_less_divide_eq)
  have hi: "x < 2691 / 10000"
    unfolding x_def using assms(1) pos by (simp add: pos_divide_less_eq)
  have eq: "e / (e + 1) = 1 - x"
    unfolding x_def using pos by (simp add: field_simps)
  show "\<bar>e / (e + 1) - 731 / 1000\<bar> < 5 / 10000"
    unfolding eq using lo hi unfolding abs_less_iff by auto
  show "\<bar>1 / (e + 1) - 269 / 1000\<bar> < 5 / 10000"
    unfolding x_def [symmetric] using lo hi unfolding abs_less_iff by auto
  show "\<bar>10 * (e / (e + 1)) + 20 * (1 / (e + 1)) - 1269 / 100\<bar> < 5 / 1000"
    unfolding eq unfolding x_def [symmetric] using lo hi unfolding abs_less_iff by auto
  show "1268 / 100 < 10 * (e / (e + 1)) + 20 * (1 / (e + 1))"
    unfolding eq unfolding x_def [symmetric] using lo hi by auto
qed

lemma exp_1_bounds: "27169 / 10000 < exp (1::real)" "exp (1::real) < 27197 / 10000"
  using exp_1_lower exp_1_upper by simp_all

text \<open>
  Claim C9, as the code has it. For keys \<open>[[1,0],[0,1]]\<close>, query \<open>[1,0]\<close>, values
  \<open>[10,20]\<close> and temperature \<open>1\<close> the scores are \<open>[1,0]\<close>, the weights are
  \<open>[e/(e+1), 1/(e+1)]\<close>, within \<open>0.0005\<close> of \<open>[0.731, 0.269]\<close>, and the aggregate is
  \<open>10 + 10/(e+1)\<close>, within \<open>0.005\<close> of \<open>12.69\<close>.
\<close>

theorem scenario_values:
  "\<exists>w0 w1 a. compute_attention [[1, 0], [0, 1]] [1, 0] [10, 20] 1 = Returns ([w0, w1], a)
     \<and> scores [[1, 0], [0, 1]] [1, 0] 1 = [1, 0]
     \<and> \<bar>w0 - 0.731\<bar> < 0.0005 \<and> \<bar>w1 - 0.269\<bar> < 0.0005
     \<and> \<bar>a - 12.69\<bar> < 0.005"
proof -
  have w0: "\<bar>exp 1 / (exp 1 + 1) - 0.731\<bar> < (0.0005 :: real)"
    using scenario_bounds(1) [OF exp_1_bounds] by simp
  have w1: "\<bar>1 / (exp 1 + 1) - 0.269\<bar> < (0.0005 :: real)"
    using scenario_bounds(2) [OF exp_1_bounds] by simp
  have a: "\<bar>10 * (exp 1 / (exp 1 + 1)) + 20 * (1 / (exp 1 + 1)) - 12.69\<bar> < (0.005 :: real)"
    using scenario_bounds(3) [OF exp_1_bounds] by simp
  have s: "scores [[1, 0], [0, 1]] [1, 0] 1 = [1, 0]"
    by (simp add: scores_def dot_def)
  show ?thesis
    using scenario_outcome w0 w1 a s by blast
qed

text \<open>The aggregate of the scenario is above \<open>12.68\<close>, so it is not \<open>12.62\<close> to the two
  decimals given.\<close>

theorem scenario_aggregate_not_12_62:
  "compute_attention [[1, 0], [0, 1]] [1, 0] [10, 20] 1 =
     Returns ([exp 1 / (exp 1 + 1), 1 / (exp 1 + 1)],
              10 * (exp 1 / (exp 1 + 1)) + 20 * (1 / (exp 1 + 1)))
   \<and> 12.68 < 10 * (exp 1 / (exp 1 + 1)) + 20 * (1 / (exp 1 + 1 :: real))"
proof -
  have "12.68 < 10 * (exp 1 / (exp 1 + 1)) + 20 * (1 / (exp 1 + 1 :: real))"
    using scenario_bounds(4) [OF exp_1_bounds] by simp
  then show ?thesis
    using scenario_outcome by simp
qed

subsection \<open>A growing temperature, and tied scores\<close>

lemma weights_nth_dot:
  assumes "i < length keys"
  shows "weights keys query T ! i =
         exp (dot (keys ! i) query / T) / (\<Sum>j<length keys. exp (dot (keys ! j) query / T))"
proof -
  have "(\<Sum>t\<leftarrow>scores keys query T. exp t) = (\<Sum>j<length keys. exp (dot (keys ! j) query / T))"
    by (simp add: sum_list_nth_lessThan scores_def)
  then show ?thesis
    using assms by (simp add: weights_def scores_def)
qed

lemma exp_scaled_at_top:
  fixes c :: real
  shows "((\<lambda>T. exp (c / T)) \<longlongrightarrow> 1) at_top"
proof -
  have "((\<lambda>T::real. c / T) \<longlongrightarrow> 0) at_top"
    by (intro tendsto_divide_0 [OF tendsto_const] filterlim_at_top_imp_at_infinity
        filterlim_ident)
  then have "((\<lambda>T. exp (c / T)) \<longlongrightarrow> exp 0) at_top"
    by (rule tendsto_exp)
  then show ?thesis by simp
qed

lemma weights_tendsto_uniform:
  assumes "i < length keys"
  shows "((\<lambda>T. weights keys query T ! i) \<longlongrightarrow> 1 / real (length keys)) at_top"
proof -
  let ?n = "length keys"
  have num: "((\<lambda>T. exp (dot (keys ! i) query / T)) \<longlongrightarrow> 1) at_top"
    by (rule exp_scaled_at_top)
  have "((\<lambda>T. \<Sum>j<?n. exp (dot (keys ! j) query / T)) \<longlongrightarrow> (\<Sum>j<?n. 1)) at_top"
    by (intro tendsto_sum exp_scaled_at_top)
  then have den: "((\<lambda>T. \<Sum>j<?n. exp (dot (keys ! j) query / T)) \<longlongrightarrow> real ?n) at_top"
    by simp
  have "real ?n \<noteq> 0"
    using assms by auto
  then have "((\<lambda>T. exp (dot (keys ! i) query / T) /
                 (\<Sum>j<?n. exp (dot (keys ! j) query / T))) \<longlongrightarrow> 1 / real ?n) at_top"
    by (intro tendsto_divide num den)
  then show ?thesis
    using assms by (simp add: weights_nth_dot)
qed

text \<open>
  Claim C8, as the code has it. Fix keys of the length of the query and as many values.
  From some temperature on the scorer returns weights \<open>W T\<close>, and as \<open>T\<close> grows without
  bound each weight tends to \<open>1/N\<close>, the uniform distribution over the \<open>N\<close> items. Nothing
  is said of a temperature that decreases to \<open>0\<close>.
\<close>

theorem temperature_flattens:
  assumes "list_all (\<lambda>k. length k = length query) keys"
    and "length keys = length values"
  shows "\<exists>W. (\<forall>\<^sub>F T in at_top. \<exists>a. compute_attention keys query values T = Returns (W T, a))
    \<and> (\<forall>i<length keys. ((\<lambda>T. W T ! i) \<longlongrightarrow> 1 / real (length keys)) at_top)"
proof (intro exI [of _ "weights keys query"] conjI allI impI)
  have "compute_attention keys query values T =
          Returns (weights keys query T, sum_list (map2 (*) values (weights keys query T)))"
    if "0 < T" for T
    using assms that by (intro compute_attention_returns) simp_all
  then have "\<exists>a. compute_attention keys query values T = Returns (weights keys query T, a)"
    if "0 < T" for T
    using that by blast
  then show "\<forall>\<^sub>F T in at_top. \<exists>a. compute_attention keys query values T =
                Returns (weights keys query T, a)"
    using eventually_gt_at_top [of "0::real"] by (rule eventually_mono [rotated])
next
  fix i
  assume "i < length keys"
  then show "((\<lambda>T. weights keys query T ! i) \<longlongrightarrow> 1 / real (length keys)) at_top"
    by (rule weights_tendsto_uniform)
qed

theorem temperature_flattens_witness:
  "list_all (\<lambda>k. length k = length [1, 0 :: real]) [[1, 0], [0, 1 :: real]]
   \<and> length [[1, 0], [0, 1 :: real]] = length [10, 20 :: real]
   \<and> (\<exists>W :: real \<Rightarrow> real list.
         (\<forall>\<^sub>F T in at_top. \<exists>a. compute_attention [[1, 0], [0, 1]] [1, 0] [10, 20] T =
              Returns (W T, a))
         \<and> ((\<lambda>T. W T ! 0) \<longlongrightarrow> 1 / 2) at_top
         \<and> ((\<lambda>T. W T ! 1) \<longlongrightarrow> 1 / 2) at_top)"
proof -
  let ?K = "[[1, 0], [0, 1 :: real]]"
  let ?Q = "[1, 0 :: real]"
  let ?V = "[10, 20 :: real]"
  have shape: "list_all (\<lambda>k. length k = length ?Q) ?K" "length ?K = length ?V"
    by simp_all
  from temperature_flattens [OF shape] obtain W where
    ret: "\<forall>\<^sub>F T in at_top. \<exists>a. compute_attention ?K ?Q ?V T = Returns (W T, a)"
    and flat: "\<forall>i<length ?K. ((\<lambda>T. W T ! i) \<longlongrightarrow> 1 / real (length ?K)) at_top"
    by blast
  have r2: "((\<lambda>T. W T ! 0) \<longlongrightarrow> 1 / 2) at_top"
    using flat [rule_format, of 0] by simp
  have r3: "((\<lambda>T. W T ! 1) \<longlongrightarrow> 1 / 2) at_top"
    using flat [rule_format, of 1] by simp
  have ex: "\<exists>W :: real \<Rightarrow> real list.
         (\<forall>\<^sub>F T in at_top. \<exists>a. compute_attention ?K ?Q ?V T = Returns (W T, a))
         \<and> ((\<lambda>T. W T ! 0) \<longlongrightarrow> 1 / 2) at_top
         \<and> ((\<lambda>T. W T ! 1) \<longlongrightarrow> 1 / 2) at_top"
    by (rule exI [of _ W]) (rule conjI [OF ret conjI [OF r2 r3]])
  show ?thesis
    by (rule conjI [OF shape(1) conjI [OF shape(2) ex]])
qed

text \<open>Two items with the same score, here \<open>0\<close>: at the temperatures \<open>1\<close>, \<open>10\<^sup>-\<^sup>3\<close> and
  \<open>10\<^sup>-\<^sup>6\<close> the weights are \<open>[1/2, 1/2]\<close>, as at every temperature other than \<open>0\<close>, and
  come no nearer to a one-hot distribution.\<close>

theorem tied_scores_stay_uniform:
  "dot [1, 0] [0, 1] = 0
   \<and> compute_attention [[1, 0], [1, 0]] [0, 1] [10, 20] 1 = Returns ([1/2, 1/2], 15)
   \<and> compute_attention [[1, 0], [1, 0]] [0, 1] [10, 20] (1/1000) = Returns ([1/2, 1/2], 15)
   \<and> compute_attention [[1, 0], [1, 0]] [0, 1] [10, 20] (1/1000000) = Returns ([1/2, 1/2], 15)"
  by (simp add: compute_attention_def np_dot_def np_multiply_def dot_def)

section \<open>Multi-head attention as the notebook has it\<close>

lemma collect_name_error:
  assumes "\<forall>x\<in>set xs. x = Inl NameError \<or> (\<exists>v. x = Inr v)"
  shows "collect xs = Inl NameError \<or> (\<exists>vs. collect xs = Inr vs)"
  using assms
proof (induction xs)
  case Nil
  then show ?case by simp
next
  case (Cons x xs)
  then show ?case
    by (auto split: sum.splits)
qed

lemma head_rating_unbound:
  assumes "attention_per_head g = None" and "name \<in> set (map fst (books g))"
  shows "head_rating g head_idx i name = Inl NameError"
proof -
  have "map_of (books g) name \<noteq> None"
    using assms(2) by (simp add: map_of_eq_None_iff)
  then show ?thesis
    using assms(1) by (auto simp add: head_rating_def)
qed

lemma head_ratings_unbound:
  assumes "attention_per_head g = None"
  shows "head_ratings g head_idx = Inl NameError \<or> (\<exists>v. head_ratings g head_idx = Inr v)"
  unfolding head_ratings_def
proof (rule collect_name_error, rule ballI)
  fix x
  assume "x \<in> set (map (\<lambda>(i, name). head_rating g head_idx i name)
                      (enumerate 0 (map fst (books g))))"
  then obtain i name where "x = head_rating g head_idx i name"
    and "(i, name) \<in> set (enumerate 0 (map fst (books g)))"
    by auto
  then have "x = Inl NameError"
    using head_rating_unbound [OF assms] by (auto simp add: in_set_enumerate_eq)
  then show "x = Inl NameError \<or> (\<exists>v. x = Inr v)" ..
qed

lemma multi_head_attention_unbound:
  assumes "attention_per_head g = None"
  shows "multi_head_attention g keys query values n_heads temperature = Raises NameError"
proof -
  have "book_ratings_per_head g n_heads = Inl NameError
        \<or> (\<exists>vs. book_ratings_per_head g n_heads = Inr vs)"
    unfolding book_ratings_per_head_def
    by (rule collect_name_error) (use head_ratings_unbound [OF assms] in auto)
  then show ?thesis
    using assms by (auto simp add: multi_head_attention_def)
qed

text \<open>
  Claim C3 describes the function with the steps of its comments in place: a projection of
  query and keys for each head, the weights of \<open>compute_attention\<close> on the projected
  inputs, and the mean over the heads of \<open>values[i] * weights_h[i]\<close>. The body of the
  notebook has the last step only and reads the weights from the name
  \<open>attention_per_head\<close>, which nothing binds: in the module state of the notebook every
  call raises NameError, whatever its arguments, and returns no vector.
\<close>

theorem multi_head_attention_unimplemented:
  "multi_head_attention notebook_globals keys query values n_heads temperature =
     Raises NameError"
  by (rule multi_head_attention_unbound) (simp add: notebook_globals_def)

text \<open>
  Claim C7 expects the error of a missing projection when there are more heads than the
  two configured matrices. On the data of the notebook a call with three heads raises
  NameError, as a call with any number of heads does; the dictionary of the matrices, with
  the keys \<open>0\<close> and \<open>1\<close>, is never indexed.
\<close>

theorem three_heads_name_error:
  "(case create_KQV notebook_globals of
      (keys, query, values) \<Rightarrow> multi_head_attention notebook_globals keys query values 3 1) =
     Raises NameError
   \<and> map fst projection_matrices = [0, 1]"
  by (simp add: create_KQV_def multi_head_attention_unbound notebook_globals_def
      projection_matrices_def)












end
